theory Spec2Isabelle
  imports Main
begin

section \<open>Data model of \<open>nbcollection/ci/generator/datatypes.py\<close>\<close>

text \<open>
  The enumerations and named tuples of the module.  A \<open>typing.NamedTuple\<close> is built
  positionally in the source, so each one is a datatype with one constructor whose
  selectors carry the field names.  Two field names occur in more than one tuple
  (\<open>org\<close>, \<open>name\<close>); the later ones are prefixed: \<open>url_org\<close> is \<open>URLParts.org\<close> and
  \<open>remote_name\<close> is \<open>GitConfigRemote.name\<close>.
\<close>

datatype RepoType = Local | GithubGIT | GithubHTTPS

datatype URLType = GithubRepoURL | GithubPullRequest

datatype RemoteScheme = Git | Http | Https

text \<open>
  The field \<open>pull_request_number\<close> is annotated \<open>int\<close>, but a named tuple does not
  check its annotations: the field holds whatever object is passed.  The source passes
  the integer \<open>0\<close> in one place and a string in another, so the field is a Python value.
\<close>

datatype pyval = PyInt int | PyStr string

datatype URLParts =
  URLParts (url_type: URLType) (url_org: string) (repo_name: string)
    (pull_request_number: pyval)

datatype RemoteParts =
  RemoteParts (scheme: RemoteScheme) (netloc: string) (org: string) (name: string)

datatype GitConfigRemote =
  GitConfigRemote (remote_name: string) (parts: RemoteParts) (fetch: string)

text \<open>The calls made on the git collaborator (GitPython), in the order they are issued.\<close>

datatype git_op =
    Clone string string  \<comment> \<open>\<open>git.Repo.clone_from(url, path)\<close>\<close>
  | Open string          \<comment> \<open>\<open>git.Repo(path)\<close>\<close>
  | Add string           \<comment> \<open>\<open>repo.git.add(filepath)\<close>\<close>
  | Diff string          \<comment> \<open>\<open>repo.index.diff(ref)\<close>\<close>
  | Commit string        \<comment> \<open>\<open>repo.index.commit(message)\<close>\<close>
  | Remote string        \<comment> \<open>\<open>repo.remote(name=...)\<close>\<close>
  | Push                 \<comment> \<open>\<open>remote.push()\<close>\<close>

text \<open>
  Exceptions as values.  \<open>NotImplementedError\<close> keeps its argument, which tells the
  raise sites apart.  \<open>ValueError_unpack expected got\<close> is the \<open>ValueError\<close> that tuple
  unpacking raises when the right-hand side has \<open>got\<close> items instead of \<open>expected\<close>.
  \<open>GitError\<close> is any exception raised by a call on the git collaborator.
\<close>

datatype pyarg = NoArg | StrArg string | RepoTypeArg RepoType

datatype error =
    NotImplementedError pyarg
  | ValueError string
  | ValueError_unpack nat nat
  | IndexError
  | TypeError
  | InvalidRepoPath string
  | GitError git_op

definition bind_err :: "error + 'a \<Rightarrow> ('a \<Rightarrow> error + 'b) \<Rightarrow> error + 'b" where
  "bind_err m f = (case m of Inl e \<Rightarrow> Inl e | Inr x \<Rightarrow> f x)"

section \<open>Python string operations used by the module\<close>

definition startswith :: "string \<Rightarrow> string \<Rightarrow> bool" where
  "startswith s p = (take (length p) s = p)"

definition endswith :: "string \<Rightarrow> string \<Rightarrow> bool" where
  "endswith s p = (length p \<le> length s \<and> drop (length s - length p) s = p)"

text \<open>\<open>s.strip(chars)\<close>: drops leading and trailing characters that occur in \<open>chars\<close>.\<close>

definition py_strip :: "string \<Rightarrow> string \<Rightarrow> string" where
  "py_strip chars s =
     rev (dropWhile (\<lambda>c. c \<in> set chars) (rev (dropWhile (\<lambda>c. c \<in> set chars) s)))"

text \<open>\<open>s.split(c, n)\<close> for a one-character separator: at most \<open>n\<close> splits, from the left.\<close>

fun py_split :: "char \<Rightarrow> nat \<Rightarrow> string \<Rightarrow> string list" where
  "py_split c 0 s = [s]"
| "py_split c (Suc n) s =
     (if c \<in> set s
      then takeWhile (\<lambda>x. x \<noteq> c) s # py_split c n (drop 1 (dropWhile (\<lambda>x. x \<noteq> c) s))
      else [s])"

text \<open>\<open>s.split(c)\<close> for a one-character separator, with no bound on the splits.\<close>

fun py_split_all :: "char \<Rightarrow> string \<Rightarrow> string list" where
  "py_split_all c [] = [[]]"
| "py_split_all c (x # xs) =
     (if x = c then [] # py_split_all c xs
      else (case py_split_all c xs of
              [] \<Rightarrow> [[x]]
            | y # ys \<Rightarrow> (x # y) # ys))"

text \<open>\<open>s.rsplit(c, 1)\<close> for a one-character separator: one split at the last \<open>c\<close>.\<close>

definition py_rsplit1 :: "char \<Rightarrow> string \<Rightarrow> string list" where
  "py_rsplit1 c s =
     (if c \<in> set s
      then [rev (drop 1 (dropWhile (\<lambda>x. x \<noteq> c) (rev s))),
            rev (takeWhile (\<lambda>x. x \<noteq> c) (rev s))]
      else [s])"

text \<open>\<open>s.find(sub)\<close>: index of the first occurrence of \<open>sub\<close>, \<open>None\<close> for Python's \<open>-1\<close>.\<close>

fun py_find :: "string \<Rightarrow> string \<Rightarrow> nat option" where
  "py_find sub [] = (if sub = [] then Some 0 else None)"
| "py_find sub (x # xs) =
     (if take (length sub) (x # xs) = sub then Some 0
      else map_option Suc (py_find sub xs))"

text \<open>
  \<open>s.rsplit(sep, 1)\<close> for a separator string: one split at the last occurrence of
  \<open>sep\<close>, which is the first occurrence of the reversed separator in the reversed string.
\<close>

definition py_rsplit1_str :: "string \<Rightarrow> string \<Rightarrow> string list" where
  "py_rsplit1_str sep s =
     (case py_find (rev sep) (rev s) of
        None \<Rightarrow> [s]
      | Some i \<Rightarrow> [take (length s - i - length sep) s, drop (length s - i) s])"

text \<open>\<open>xs[i]\<close> for a non-negative index: \<open>IndexError\<close> out of range.\<close>

definition py_index :: "'a list \<Rightarrow> nat \<Rightarrow> error + 'a" where
  "py_index xs i = (if i < length xs then Inr (xs ! i) else Inl IndexError)"

text \<open>Tuple unpacking \<open>a, b = xs\<close> and \<open>a, b, c = xs\<close>.\<close>

definition unpack2 :: "'a list \<Rightarrow> error + ('a \<times> 'a)" where
  "unpack2 xs = (case xs of [a, b] \<Rightarrow> Inr (a, b) | _ \<Rightarrow> Inl (ValueError_unpack 2 (length xs)))"

definition unpack3 :: "'a list \<Rightarrow> error + ('a \<times> 'a \<times> 'a)" where
  "unpack3 xs =
     (case xs of [a, b, c] \<Rightarrow> Inr (a, b, c) | _ \<Rightarrow> Inl (ValueError_unpack 3 (length xs)))"

section \<open>\<open>urllib.parse.urlparse\<close>\<close>

text \<open>
  The module calls the standard library's \<open>urlparse\<close> and reads the fields \<open>scheme\<close>,
  \<open>netloc\<close> and \<open>path\<close> of the result.  The model follows CPython's \<open>urlsplit\<close> and
  \<open>urlparse\<close> on ASCII input: leading control characters and spaces are dropped, tab,
  carriage return and line feed are removed, a leading run of scheme characters before
  the first colon is the scheme (lower-cased), \<open>//\<close> starts the network location, which
  ends at the first of \<open>/ ? #\<close>, the fragment and the query are cut off, and for the
  schemes that take parameters the last path segment is cut at its first \<open>;\<close>.  An
  unmatched square bracket in the network location is a \<open>ValueError\<close>.  The check of a
  bracketed IP literal that later CPython versions make is not part of the model.
\<close>

record ParseResult =
  pr_scheme :: string
  pr_netloc :: string
  pr_path :: string

definition ascii_letters :: string where
  "ascii_letters = ''abcdefghijklmnopqrstuvwxyzABCDEFGHIJKLMNOPQRSTUVWXYZ''"

definition scheme_chars :: string where
  "scheme_chars = ascii_letters @ ''0123456789+-.''"

definition uses_params :: "string list" where
  "uses_params = ['''', ''ftp'', ''hdl'', ''prospero'', ''http'', ''imap'', ''https'',
     ''shttp'', ''rtsp'', ''rtspu'', ''sip'', ''sips'', ''mms'', ''sftp'', ''tel'']"

definition lower_char :: "char \<Rightarrow> char" where
  "lower_char c =
     (case map_of (zip ''ABCDEFGHIJKLMNOPQRSTUVWXYZ'' ''abcdefghijklmnopqrstuvwxyz'') c of
        None \<Rightarrow> c
      | Some l \<Rightarrow> l)"

definition c0_control_or_space :: "char \<Rightarrow> bool" where
  "c0_control_or_space c = (of_char c \<le> (32::nat))"

definition unsafe_url_byte :: "char \<Rightarrow> bool" where
  "unsafe_url_byte c = (of_char c \<in> {9::nat, 10, 13})"

text \<open>The scheme and the rest: \<open>url[:i].lower(), url[i+1:]\<close> when \<open>url[:i]\<close> is a scheme.\<close>

definition split_scheme :: "string \<Rightarrow> string \<times> string" where
  "split_scheme url =
     (let pre = takeWhile (\<lambda>c. c \<noteq> CHR '':'') url in
      if CHR '':'' \<in> set url \<and> pre \<noteq> [] \<and> hd pre \<in> set ascii_letters
         \<and> list_all (\<lambda>c. c \<in> set scheme_chars) pre
      then (map lower_char pre, drop (Suc (length pre)) url)
      else ('''', url))"

definition netloc_delim :: "char \<Rightarrow> bool" where
  "netloc_delim c = (c \<in> set ''/?#'')"

definition splitnetloc :: "string \<Rightarrow> string \<times> string" where
  "splitnetloc url =
     (if take 2 url = ''//''
      then (takeWhile (\<lambda>c. \<not> netloc_delim c) (drop 2 url),
            dropWhile (\<lambda>c. \<not> netloc_delim c) (drop 2 url))
      else ('''', url))"

definition splitparams :: "string \<Rightarrow> string" where
  "splitparams url =
     (let last_seg = rev (takeWhile (\<lambda>c. c \<noteq> CHR ''/'') (rev url)) in
      take (length url - length last_seg) url @ takeWhile (\<lambda>c. c \<noteq> CHR '';'') last_seg)"

definition urlparse :: "string \<Rightarrow> error + ParseResult" where
  "urlparse url0 =
     (let url1 = filter (\<lambda>c. \<not> unsafe_url_byte c) (dropWhile c0_control_or_space url0);
          (sch, url2) = split_scheme url1;
          (nl, url3) = splitnetloc url2
      in if (CHR ''['' \<in> set nl \<and> CHR '']'' \<notin> set nl)
            \<or> (CHR '']'' \<in> set nl \<and> CHR ''['' \<notin> set nl)
         then Inl (ValueError ''Invalid IPv6 URL'')
         else
           let url4 = takeWhile (\<lambda>c. c \<noteq> CHR ''#'') url3;
               url5 = takeWhile (\<lambda>c. c \<noteq> CHR ''?'') url4;
               url6 = (if sch \<in> set uses_params \<and> CHR '';'' \<in> set url5
                       then splitparams url5 else url5)
           in Inr \<lparr>pr_scheme = sch, pr_netloc = nl, pr_path = url6\<rparr>)"

section \<open>The URL classifier\<close>

text \<open>
  \<open>RemoteScheme.__members__[[sc for sc, sv in ... if sv.value == url_parts.scheme][0]]\<close>:
  the member whose value is the parsed scheme; the \<open>IndexError\<close> of the empty list is
  turned into \<open>NotImplementedError(url_parts.scheme)\<close>.
\<close>

definition lookup_scheme :: "string \<Rightarrow> error + RemoteScheme" where
  "lookup_scheme s =
     (case map_of [(''git'', Git), (''http'', Http), (''https'', Https)] s of
        None \<Rightarrow> Inl (NotImplementedError (StrArg s))
      | Some sc \<Rightarrow> Inr sc)"

definition ParseURLToRemoteParts :: "string \<Rightarrow> error + RemoteParts" where
  "ParseURLToRemoteParts url =
     (if startswith url ''git@'' then
        bind_err (py_index (py_split CHR ''@'' 1 url) 1) (\<lambda>after_at.
        bind_err (py_index (py_rsplit1 CHR '':'' after_at) 0) (\<lambda>netloc'.
        bind_err (py_index (py_rsplit1 CHR '':'' url) 1) (\<lambda>path0.
        let path = (if endswith path0 ''.git'' then take (length path0 - 4) path0 else path0)
        in bind_err (unpack2 (py_split CHR ''/'' 1 path)) (\<lambda>(org', repo_name').
           Inr (RemoteParts Git netloc' org' repo_name')))))
      else if startswith url ''http'' \<and> endswith url ''.git'' then
        bind_err (urlparse url) (\<lambda>url_parts.
        bind_err (lookup_scheme (pr_scheme url_parts)) (\<lambda>scheme'.
        bind_err (py_index (py_rsplit1_str ''.git'' (pr_path url_parts)) 0) (\<lambda>stem.
        bind_err (unpack2 (py_split_all CHR ''/'' (py_strip ''/'' stem))) (\<lambda>(org', repo_name').
           Inr (RemoteParts scheme' (pr_netloc url_parts) org' repo_name')))))
      else if startswith url ''http'' \<and> py_find ''pull/'' url \<noteq> None then
        bind_err (urlparse url) (\<lambda>url_parts.
        bind_err (lookup_scheme (pr_scheme url_parts)) (\<lambda>scheme'.
        bind_err (unpack3 (py_split CHR ''/'' 2 (py_strip ''/'' (pr_path url_parts))))
          (\<lambda>(org', repo_name', rest).
           Inr (RemoteParts scheme' (pr_netloc url_parts) org' repo_name'))))
      else Inl (NotImplementedError (StrArg url)))"

text \<open>\<open>GitConfigRemote.is_match\<close>: a failure of the parser propagates.\<close>

definition is_match :: "GitConfigRemote \<Rightarrow> string \<Rightarrow> error + bool" where
  "is_match self url =
     bind_err (ParseURLToRemoteParts url) (\<lambda>other_remote_parts.
       Inr (netloc other_remote_parts = netloc (parts self)
            \<and> org other_remote_parts = org (parts self)
            \<and> name other_remote_parts = name (parts self)))"

text \<open>
  \<open>select_url_type\<close>.  The \<open>try\<close> unpacks three segments; its \<open>except ValueError\<close>
  handler unpacks two and sets \<open>rest = None\<close>.  A \<open>ValueError\<close> raised inside the handler
  is not caught.
\<close>

definition split_org_repo_rest :: "string \<Rightarrow> error + (string \<times> string \<times> string option)" where
  "split_org_repo_rest path =
     (let segs = py_split CHR ''/'' 2 (py_strip ''/'' path) in
      case unpack3 segs of
        Inr (org', repo_name', rest) \<Rightarrow> Inr (org', repo_name', Some rest)
      | Inl (ValueError_unpack _ _) \<Rightarrow>
          bind_err (unpack2 segs) (\<lambda>(org', repo_name'). Inr (org', repo_name', None))
      | Inl e \<Rightarrow> Inl e)"

definition select_url_type :: "string \<Rightarrow> RepoType \<Rightarrow> error + URLParts" where
  "select_url_type url repo_type =
     (if repo_type \<in> set [GithubGIT, GithubHTTPS] then
        bind_err (urlparse url) (\<lambda>url_parts.
        bind_err (split_org_repo_rest (pr_path url_parts)) (\<lambda>(org', repo_name', rest).
          case rest of
            None \<Rightarrow> Inr (URLParts GithubRepoURL org' repo_name' (PyInt 0))
          | Some rest \<Rightarrow>
              if startswith rest ''pull'' then
                bind_err (py_index (py_split CHR ''/'' 1 (py_strip ''pull/'' rest)) 0) (\<lambda>pr_num.
                  if CHR ''/'' \<in> set pr_num
                  then Inl (NotImplementedError
                              (StrArg (''Unable to parse pr_num['' @ pr_num @ '']'')))
                  else Inr (URLParts GithubPullRequest org' repo_name' (PyStr pr_num)))
              else Inl (NotImplementedError NoArg)))
      else Inl (NotImplementedError (RepoTypeArg repo_type)))"

section \<open>The repository locator\<close>

text \<open>
  What \<open>select_repo_type\<close> reads from its environment: \<open>os.path.exists\<close>, whether
  \<open>git.Repo(path)\<close> opens the path or raises \<open>InvalidGitRepositoryError\<close>, and the names
  that \<open>tempfile.NamedTemporaryFile().name\<close> hands out.  \<open>tmp_count\<close> counts the
  temporary names allocated so far; the \<open>n\<close>-th allocation returns \<open>tmp_names n\<close>.
\<close>

record os_env =
  path_exists :: "string \<Rightarrow> bool"
  is_git_repo :: "string \<Rightarrow> bool"
  tmp_names :: "nat \<Rightarrow> string"
  tmp_count :: nat

definition NamedTemporaryFile_name :: "os_env \<Rightarrow> string \<times> os_env" where
  "NamedTemporaryFile_name os = (tmp_names os (tmp_count os), os\<lparr>tmp_count := Suc (tmp_count os)\<rparr>)"

definition select_repo_type :: "os_env \<Rightarrow> string \<Rightarrow> error + ((string \<times> RepoType) \<times> os_env)" where
  "select_repo_type os repo_path =
     (if path_exists os repo_path then
        (if \<not> is_git_repo os repo_path
         then Inl (InvalidRepoPath (''RepoPath['' @ repo_path @ ''] is not a Repository''))
         else Inr ((repo_path, Local), os))
      else if startswith repo_path ''git@github.com'' then
        (let (tmp, os') = NamedTemporaryFile_name os in Inr ((tmp, GithubGIT), os'))
      else if startswith repo_path ''https://github.com'' then
        (let (tmp, os') = NamedTemporaryFile_name os in Inr ((tmp, GithubHTTPS), os'))
      else Inl (InvalidRepoPath (''RepoPath['' @ repo_path @ ''] does not exist'')))"

section \<open>The repository session\<close>

text \<open>
  The class \<open>Repo\<close>.  Its attribute \<open>_altered_files\<close> is \<open>altered_files\<close> here, and
  \<open>repo_url\<close> is optional because \<open>__init__\<close> stores \<open>None\<close> for a local repository.
\<close>

record Repo =
  repo_path :: string
  repo_url :: "string option"
  repo_type :: RepoType
  altered_files :: "string list"

text \<open>
  The git collaborator.  A session's effect on it is the list of calls made so far.
  Whether a call raises, and how many entries \<open>repo.index.diff(ref)\<close> returns, are
  decided by the collaborator from the calls that came before.  A call that raises ends
  the method with that exception.
\<close>

record git_env =
  git_fails :: "git_op list \<Rightarrow> git_op \<Rightarrow> bool"
  diff_len :: "git_op list \<Rightarrow> string \<Rightarrow> nat"

definition git_call :: "git_env \<Rightarrow> git_op \<Rightarrow> git_op list \<Rightarrow> error + git_op list" where
  "git_call env op t = (if git_fails env t op then Inl (GitError op) else Inr (t @ [op]))"

text \<open>\<open>len(repo.index.diff(ref))\<close>: the call is recorded and its length returned.\<close>

definition git_diff_len :: "git_env \<Rightarrow> string \<Rightarrow> git_op list \<Rightarrow> error + (nat \<times> git_op list)" where
  "git_diff_len env ref t =
     bind_err (git_call env (Diff ref) t) (\<lambda>t'. Inr (diff_len env t ref, t'))"

text \<open>\<open>for filepath in self._altered_files: repo.git.add(filepath)\<close>\<close>

fun add_all :: "git_env \<Rightarrow> string list \<Rightarrow> git_op list \<Rightarrow> error + git_op list" where
  "add_all env [] t = Inr t"
| "add_all env (filepath # rest) t =
     bind_err (git_call env (Add filepath) t) (add_all env rest)"

definition commit_message :: string where
  "commit_message = ''Added by CircleCI Integration from https://github.com/adrn/nbcollection''"

text \<open>The three statements under the \<open>if\<close> of both remote branches.\<close>

definition commit_and_push :: "git_env \<Rightarrow> git_op list \<Rightarrow> error + git_op list" where
  "commit_and_push env t =
     bind_err (git_call env (Commit commit_message) t) (\<lambda>t1.
     bind_err (git_call env (Remote ''origin'') t1) (\<lambda>t2.
     git_call env Push t2))"

text \<open>
  \<open>git.Repo.clone_from(self.repo_url, self.repo_path)\<close>; with \<open>repo_url = None\<close> the
  call cannot build its command line.
\<close>

definition clone_from :: "git_env \<Rightarrow> string option \<Rightarrow> string \<Rightarrow> git_op list \<Rightarrow> error + git_op list" where
  "clone_from env url path t =
     (case url of None \<Rightarrow> Inl TypeError | Some u \<Rightarrow> git_call env (Clone u path) t)"

definition sync_repo_locally :: "git_env \<Rightarrow> Repo \<Rightarrow> git_op list \<Rightarrow> error + git_op list" where
  "sync_repo_locally env self t =
     (case repo_type self of
        Local \<Rightarrow> Inr t
      | GithubGIT \<Rightarrow> clone_from env (repo_url self) (repo_path self) t
      | GithubHTTPS \<Rightarrow> clone_from env (repo_url self) (repo_path self) t)"

text \<open>
  \<open>_sync_repo_remote\<close>.  \<open>DEFAULT_REMOTE\<close> and \<open>DEFAULT_BRANCH\<close> are imported from
  \<open>nbcollection.ci.constants\<close>, which is not among the sources, so they are parameters.
  A length is true in a Python condition when it is positive.  The closing \<open>else\<close> of
  both methods, which raises \<open>NotImplementedError\<close>, cannot be reached: \<open>RepoType\<close> has
  three members.
\<close>

definition sync_repo_remote ::
  "string \<Rightarrow> string \<Rightarrow> git_env \<Rightarrow> Repo \<Rightarrow> git_op list \<Rightarrow> error + git_op list" where
  "sync_repo_remote DEFAULT_REMOTE DEFAULT_BRANCH env self t =
     (case repo_type self of
        Local \<Rightarrow> Inr t
      | GithubGIT \<Rightarrow>
          bind_err (git_call env (Open (repo_path self)) t) (\<lambda>t1.
          bind_err (add_all env (altered_files self) t1) (\<lambda>t2.
          bind_err (git_diff_len env ''origin/master'' t2) (\<lambda>(n, t3).
            if 0 < n \<or> 0 < length (altered_files self)
            then commit_and_push env t3
            else Inr t3)))
      | GithubHTTPS \<Rightarrow>
          bind_err (git_call env (Open (repo_path self)) t) (\<lambda>t1.
          bind_err (add_all env (altered_files self) t1) (\<lambda>t2.
          bind_err (git_diff_len env (DEFAULT_REMOTE @ ''/'' @ DEFAULT_BRANCH) t2) (\<lambda>(n, t3).
            if 0 < n
            then commit_and_push env t3
            else Inr t3))))"

text \<open>\<open>Repo.__init__\<close>, \<open>Repo.__enter__\<close> (which returns \<open>self\<close>) and \<open>Repo.__exit__\<close>.\<close>

definition Repo_init :: "os_env \<Rightarrow> string \<Rightarrow> error + (Repo \<times> os_env)" where
  "Repo_init os path =
     bind_err (select_repo_type os path) (\<lambda>((p, ty), os').
       Inr (\<lparr>repo_path = p,
             repo_url = (if ty = Local then None else Some path),
             repo_type = ty,
             altered_files = []\<rparr>, os'))"

definition Repo_enter :: "git_env \<Rightarrow> Repo \<Rightarrow> git_op list \<Rightarrow> error + (Repo \<times> git_op list)" where
  "Repo_enter env self t = bind_err (sync_repo_locally env self t) (\<lambda>t'. Inr (self, t'))"

definition Repo_exit ::
  "string \<Rightarrow> string \<Rightarrow> git_env \<Rightarrow> Repo \<Rightarrow> git_op list \<Rightarrow> error + (Repo \<times> git_op list)" where
  "Repo_exit DEFAULT_REMOTE DEFAULT_BRANCH env self t =
     bind_err (sync_repo_remote DEFAULT_REMOTE DEFAULT_BRANCH env self t) (\<lambda>t'. Inr (self, t'))"

definition install :: "Repo \<Rightarrow> error + Repo" where
  "install self = Inl (NotImplementedError NoArg)"

definition uninstall :: "Repo \<Rightarrow> error + Repo" where
  "uninstall self = Inl (NotImplementedError NoArg)"

text \<open>
  Modelled from the spec: the commands that use a session are not among the sources.
  During the scope they may append paths to \<open>altered_files\<close>.
\<close>

definition append_altered :: "Repo \<Rightarrow> string \<Rightarrow> Repo" where
  "append_altered self filepath = self\<lparr>altered_files := altered_files self @ [filepath]\<rparr>"

text \<open>What can be done with a session once it is constructed, and a run of such steps.\<close>

datatype session_op = Enter | Exit | Append string | Install | Uninstall

fun session_step ::
  "string \<Rightarrow> string \<Rightarrow> git_env \<Rightarrow> session_op \<Rightarrow> Repo \<times> git_op list
     \<Rightarrow> error + (Repo \<times> git_op list)" where
  "session_step R B env Enter (self, t) = Repo_enter env self t"
| "session_step R B env Exit (self, t) = Repo_exit R B env self t"
| "session_step R B env (Append f) (self, t) = Inr (append_altered self f, t)"
| "session_step R B env Install (self, t) = bind_err (install self) (\<lambda>self'. Inr (self', t))"
| "session_step R B env Uninstall (self, t) = bind_err (uninstall self) (\<lambda>self'. Inr (self', t))"

fun run_session ::
  "string \<Rightarrow> string \<Rightarrow> git_env \<Rightarrow> session_op list \<Rightarrow> Repo \<times> git_op list
     \<Rightarrow> error + (Repo \<times> git_op list)" where
  "run_session R B env [] st = Inr st"
| "run_session R B env (op # ops) st =
     bind_err (session_step R B env op st) (run_session R B env ops)"

section \<open>URL spellings and example environments\<close>

text \<open>
  The SSH shorthand and the HTTPS clone URL of a repository, as the specification writes
  them: \<open>git@host:org/repo.git\<close> and \<open>https://host/org/repo.git\<close>.
\<close>

definition ssh_url :: "string \<Rightarrow> string \<Rightarrow> string \<Rightarrow> string" where
  "ssh_url host org' repo = ''git@'' @ host @ '':'' @ org' @ ''/'' @ repo @ ''.git''"

definition https_url :: "string \<Rightarrow> string \<Rightarrow> string \<Rightarrow> string" where
  "https_url host org' repo = ''https://'' @ host @ ''/'' @ org' @ ''/'' @ repo @ ''.git''"

text \<open>
  A host or a name that can be spelled in such a URL: it holds none of the characters
  that delimit the parts of the URL, and a name is not empty.
\<close>

definition url_host :: "string \<Rightarrow> bool" where
  "url_host h = list_all (\<lambda>c. c \<notin> set ''/?#[]'' \<and> \<not> unsafe_url_byte c) h"

definition url_name :: "string \<Rightarrow> bool" where
  "url_name s = (s \<noteq> [] \<and> list_all (\<lambda>c. c \<notin> set ''/:?#;'' \<and> \<not> unsafe_url_byte c) s)"

text \<open>A git collaborator whose calls all succeed and whose index never differs.\<close>

definition quiet_git :: git_env where
  "quiet_git = \<lparr>git_fails = (\<lambda>t op. False), diff_len = (\<lambda>t ref. 0)\<rparr>"

text \<open>A git collaborator whose calls all succeed and whose index differs by one entry.\<close>

definition dirty_git :: git_env where
  "dirty_git = \<lparr>git_fails = (\<lambda>t op. False), diff_len = (\<lambda>t ref. 1)\<rparr>"

text \<open>A git collaborator whose every call raises.\<close>

definition broken_git :: git_env where
  "broken_git = \<lparr>git_fails = (\<lambda>t op. True), diff_len = (\<lambda>t ref. 0)\<rparr>"

text \<open>
  A file system with one checkout at \<open>/work/repo\<close> and one plain directory at
  \<open>/work/notes\<close>; temporary names are \<open>/tmp/tmp0\<close>, \<open>/tmp/tmp00\<close>, ...
\<close>

definition example_os :: os_env where
  "example_os =
     \<lparr>path_exists = (\<lambda>p. p \<in> set [''/work/repo'', ''/work/notes'']),
      is_git_repo = (\<lambda>p. p = ''/work/repo''),
      tmp_names = (\<lambda>n. ''/tmp/tmp'' @ replicate (Suc n) CHR ''0''),
      tmp_count = 0\<rparr>"

definition https_session :: "string list \<Rightarrow> Repo" where
  "https_session files =
     \<lparr>repo_path = ''/tmp/tmp0'', repo_url = Some ''https://github.com/org/repo'',
      repo_type = GithubHTTPS, altered_files = files\<rparr>"

definition ssh_session :: "string list \<Rightarrow> Repo" where
  "ssh_session files =
     \<lparr>repo_path = ''/tmp/tmp0'', repo_url = Some ''git@github.com:org/repo.git'',
      repo_type = GithubGIT, altered_files = files\<rparr>"

definition local_session :: "string list \<Rightarrow> Repo" where
  "local_session files =
     \<lparr>repo_path = ''/work/repo'', repo_url = None, repo_type = Local, altered_files = files\<rparr>"

text \<open>A scope that clones, records one altered notebook and releases.\<close>

definition example_scope :: "session_op list" where
  "example_scope = [Enter, Append ''notebooks/foo.ipynb'', Exit]"

text \<open>A configured remote \<open>origin\<close>, set up from the HTTPS clone URL of \<open>org/repo\<close>.\<close>

definition origin_remote :: GitConfigRemote where
  "origin_remote =
     GitConfigRemote ''origin'' (RemoteParts Https ''github.com'' ''org'' ''repo'')
       ''+refs/heads/*:refs/remotes/origin/*''"

section \<open>Facts about the string operations\<close>

lemma bind_err_Inr: "bind_err (Inr x) f = f x"
  by (simp add: bind_err_def)

lemma bind_err_Inl: "bind_err (Inl e) f = Inl e"
  by (simp add: bind_err_def)

lemma takeWhile_until: "c \<notin> set a \<Longrightarrow> takeWhile (\<lambda>x. x \<noteq> c) (a @ c # b) = a"
  by (induction a) auto

lemma dropWhile_until: "c \<notin> set a \<Longrightarrow> dropWhile (\<lambda>x. x \<noteq> c) (a @ c # b) = c # b"
  by (induction a) auto

lemma py_split_1_at_first: "c \<notin> set a \<Longrightarrow> py_split c 1 (a @ c # b) = [a, b]"
  by (simp add: takeWhile_until dropWhile_until)

lemma py_rsplit1_at_last: "c \<notin> set b \<Longrightarrow> py_rsplit1 c (a @ c # b) = [a, b]"
  using takeWhile_until [of c "rev b" "rev a"] dropWhile_until [of c "rev b" "rev a"]
  by (simp add: py_rsplit1_def)

lemma endswith_append: "endswith (a @ p) p"
  by (simp add: endswith_def)

lemma startswith_Cons: "startswith s (c # p) = (\<exists>r. s = c # r \<and> startswith r p)"
  by (cases s) (auto simp: startswith_def)

lemma startswith_differ:
  "startswith s (c # p) \<Longrightarrow> startswith s' (c' # p') \<Longrightarrow> c \<noteq> c' \<Longrightarrow> s \<noteq> s'"
  by (auto simp: startswith_Cons)

lemma py_split_head_no_sep: "py_index (py_split c 1 s) 0 = Inr x \<Longrightarrow> c \<notin> set x"
  by (auto simp: py_index_def split: if_splits dest: set_takeWhileD)

text \<open>The only exceptions the helpers raise.\<close>

lemma urlparse_error: "urlparse url = Inl e \<Longrightarrow> e = ValueError ''Invalid IPv6 URL''"
  by (auto simp: urlparse_def Let_def split: prod.splits if_splits)

lemma unpack2_error: "unpack2 xs = Inl e \<Longrightarrow> e = ValueError_unpack 2 (length xs)"
  by (auto simp: unpack2_def split: list.splits)

lemma unpack3_error: "unpack3 xs = Inl e \<Longrightarrow> e = ValueError_unpack 3 (length xs)"
  by (auto simp: unpack3_def split: list.splits)

lemma split_org_repo_rest_error:
  "split_org_repo_rest p = Inl e \<Longrightarrow> \<exists>n. e = ValueError_unpack 2 n"
  by (auto simp: split_org_repo_rest_def Let_def bind_err_def
      split: sum.splits error.splits dest: unpack2_error unpack3_error)

lemma py_index_error: "py_index xs i = Inl e \<Longrightarrow> e = IndexError"
  by (auto simp: py_index_def split: if_splits)

lemma split_org_repo_rest_single:
  "CHR ''/'' \<notin> set (py_strip ''/'' p) \<Longrightarrow> split_org_repo_rest p = Inl (ValueError_unpack 2 1)"
  by (simp add: split_org_repo_rest_def eval_nat_numeral unpack3_def unpack2_def bind_err_def)

lemmas urlparse_defs =
  urlparse_def split_scheme_def splitnetloc_def splitparams_def netloc_delim_def
  unsafe_url_byte_def c0_control_or_space_def ascii_letters_def scheme_chars_def
  uses_params_def lower_char_def

lemmas select_url_type_defs =
  select_url_type_def split_org_repo_rest_def unpack3_def unpack2_def py_strip_def
  startswith_def py_index_def bind_err_def

section \<open>The URL classifier: \<open>select_url_type\<close>\<close>

text \<open>
  C2.  For \<open>https://github.com/spacetelescope/dat_pyinthesky/pull/125\<close> with the type
  \<open>GithubHTTPS\<close>, \<open>select_url_type\<close> returns a pull-request \<open>URLParts\<close> for
  \<open>spacetelescope\<close> and \<open>dat_pyinthesky\<close> whose fourth component is the string
  \<open>'125'\<close> cut out of the path, not the number 125: the source never converts it.
\<close>

theorem select_url_type_pull_request_is_str:
  "select_url_type ''https://github.com/spacetelescope/dat_pyinthesky/pull/125'' GithubHTTPS
     = Inr (URLParts GithubPullRequest ''spacetelescope'' ''dat_pyinthesky'' (PyStr ''125''))
   \<and> select_url_type ''https://github.com/spacetelescope/dat_pyinthesky/pull/125'' GithubHTTPS
     \<noteq> Inr (URLParts GithubPullRequest ''spacetelescope'' ''dat_pyinthesky'' (PyInt 125))"
  by (simp add: select_url_type_defs urlparse_defs eval_nat_numeral)

text \<open>
  The check \<open>'/' in pr_num\<close> comes after \<open>split('/', 1)[0]\<close>, whose result holds no
  \<open>/\<close>: no input reaches the \<open>raise\<close> that reports an unparsable pull-request number.
\<close>

lemma select_url_type_never_ambiguous:
  "select_url_type url ty
     \<noteq> Inl (NotImplementedError (StrArg (''Unable to parse pr_num['' @ s @ '']'')))"
proof
  assume "select_url_type url ty
            = Inl (NotImplementedError (StrArg (''Unable to parse pr_num['' @ s @ '']'')))"
  then obtain rest pr_num where
    "py_index (py_split CHR ''/'' 1 (py_strip ''pull/'' rest)) 0 = Inr pr_num"
    "CHR ''/'' \<in> set pr_num"
    by (auto simp: select_url_type_def bind_err_def simp del: py_split.simps One_nat_def
        split: if_splits sum.splits option.splits prod.splits
        dest: urlparse_error split_org_repo_rest_error py_index_error)
  then show False
    using py_split_head_no_sep by blast
qed

text \<open>
  C3.  A pull-request URL whose remainder after \<open>pull/\<close> and the number still holds a
  \<open>/\<close>, such as \<open>https://github.com/org/repo/pull/125/files\<close>, is not rejected:
  \<open>select_url_type\<close> returns the pull request with the string \<open>'125'\<close> and drops the
  rest of the path.
\<close>

theorem pull_request_suffix_accepted:
  "select_url_type ''https://github.com/org/repo/pull/125/files'' GithubHTTPS
     = Inr (URLParts GithubPullRequest ''org'' ''repo'' (PyStr ''125''))"
  by (simp add: select_url_type_defs urlparse_defs eval_nat_numeral)

text \<open>
  C10.  When the path of the URL, stripped of its outer slashes, holds no \<open>/\<close>, then
  \<open>select_url_type\<close> with \<open>GithubGIT\<close> or \<open>GithubHTTPS\<close> fails with the \<open>ValueError\<close>
  of the handler's two-name unpacking of a one-item list, which nothing catches.
\<close>

theorem single_segment_unpack_error:
  "ty \<in> {GithubGIT, GithubHTTPS} \<Longrightarrow> urlparse url = Inr url_parts \<Longrightarrow>
   CHR ''/'' \<notin> set (py_strip ''/'' (pr_path url_parts)) \<Longrightarrow>
   select_url_type url ty = Inl (ValueError_unpack 2 1)"
  by (auto simp: select_url_type_def split_org_repo_rest_single bind_err_def)

theorem single_segment_unpack_error_witness:
  "GithubHTTPS \<in> {GithubGIT, GithubHTTPS} \<and>
   urlparse ''https://github.com/orgonly''
     = Inr \<lparr>pr_scheme = ''https'', pr_netloc = ''github.com'', pr_path = ''/orgonly''\<rparr> \<and>
   CHR ''/'' \<notin> set (py_strip ''/'' ''/orgonly'') \<and>
   select_url_type ''https://github.com/orgonly'' GithubHTTPS = Inl (ValueError_unpack 2 1)"
proof -
  let ?parts = "\<lparr>pr_scheme = ''https'', pr_netloc = ''github.com'', pr_path = ''/orgonly''\<rparr>"
  have u: "urlparse ''https://github.com/orgonly'' = Inr ?parts"
    by (simp add: urlparse_defs)
  have s: "CHR ''/'' \<notin> set (py_strip ''/'' (pr_path ?parts))"
    by (simp add: py_strip_def)
  have t: "GithubHTTPS \<in> {GithubGIT, GithubHTTPS}"
    by simp
  from single_segment_unpack_error [OF t u s] u s show ?thesis
    by simp
qed

section \<open>The URL classifier: \<open>ParseURLToRemoteParts\<close>\<close>

text \<open>
  The \<open>git@\<close> branch of \<open>ParseURLToRemoteParts\<close> on the SSH shorthand of a host, an
  organisation and a repository name.
\<close>

lemma ParseURLToRemoteParts_git_at:
  assumes "CHR '':'' \<notin> set org'" and "CHR '':'' \<notin> set repo" and "CHR ''/'' \<notin> set org'"
  shows "ParseURLToRemoteParts (ssh_url host org' repo) = Inr (RemoteParts Git host org' repo)"
proof -
  let ?path = "org' @ CHR ''/'' # repo @ ''.git''"
  let ?url = "ssh_url host org' repo"
  have colon: "CHR '':'' \<notin> set ?path"
    using assms by simp
  have url: "?url = ''git'' @ CHR ''@'' # (host @ CHR '':'' # ?path)"
    and url': "?url = (''git@'' @ host) @ CHR '':'' # ?path"
    by (simp_all add: ssh_url_def)
  have start: "startswith ?url ''git@''"
    by (simp add: ssh_url_def startswith_def)
  have "py_split CHR ''@'' 1 ?url = [''git'', host @ CHR '':'' # ?path]"
    unfolding url by (rule py_split_1_at_first) simp
  then have after_at: "py_index (py_split CHR ''@'' 1 ?url) 1 = Inr (host @ CHR '':'' # ?path)"
    by (simp add: py_index_def)
  have "py_rsplit1 CHR '':'' (host @ CHR '':'' # ?path) = [host, ?path]"
    using colon by (rule py_rsplit1_at_last)
  then have netloc: "py_index (py_rsplit1 CHR '':'' (host @ CHR '':'' # ?path)) 0 = Inr host"
    by (simp add: py_index_def)
  have "py_rsplit1 CHR '':'' ?url = [''git@'' @ host, ?path]"
    unfolding url' using colon by (rule py_rsplit1_at_last)
  then have path0: "py_index (py_rsplit1 CHR '':'' ?url) 1 = Inr ?path"
    by (simp add: py_index_def)
  have suffix: "endswith ?path ''.git''"
    using endswith_append [of "org' @ CHR ''/'' # repo" "''.git''"] by simp
  have cut: "take (length ?path - 4) ?path = org' @ CHR ''/'' # repo"
    by simp
  have "py_split CHR ''/'' 1 (org' @ CHR ''/'' # repo) = [org', repo]"
    using assms(3) by (rule py_split_1_at_first)
  then have segs: "unpack2 (py_split CHR ''/'' 1 (org' @ CHR ''/'' # repo)) = Inr (org', repo)"
    by (simp add: unpack2_def)
  show ?thesis
    unfolding ParseURLToRemoteParts_def
    by (simp only: start if_True after_at netloc path0 bind_err_Inr Let_def suffix cut segs
        case_prod_conv)
qed

text \<open>
  C6.  For a URL \<open>git@host:org/repo.git\<close>, where neither \<open>org\<close> nor \<open>repo\<close> holds a
  colon and \<open>org\<close> holds no slash, \<open>ParseURLToRemoteParts\<close> returns the scheme \<open>Git\<close>,
  the host, the organisation and the repository name without the \<open>.git\<close> suffix.  The
  host is what follows the first \<open>@\<close> up to the last colon, so it may itself hold \<open>@\<close>
  or a colon; the name is what follows the first slash, so it may hold further slashes.
\<close>

theorem ParseURLToRemoteParts_ssh:
  assumes "CHR '':'' \<notin> set org'" and "CHR '':'' \<notin> set repo" and "CHR ''/'' \<notin> set org'"
  shows "ParseURLToRemoteParts (ssh_url host org' repo) = Inr (RemoteParts Git host org' repo)"
  using assms by (rule ParseURLToRemoteParts_git_at)

theorem ParseURLToRemoteParts_ssh_witness:
  "CHR '':'' \<notin> set ''org'' \<and> CHR '':'' \<notin> set ''sub/repo'' \<and> CHR ''/'' \<notin> set ''org''
   \<and> ParseURLToRemoteParts ''git@github.com:22:org/sub/repo.git''
       = Inr (RemoteParts Git ''github.com:22'' ''org'' ''sub/repo'')"
  using ParseURLToRemoteParts_ssh [of "''org''" "''sub/repo''" "''github.com:22''"]
  by (simp add: ssh_url_def)

section \<open>The remote matcher: \<open>GitConfigRemote.is_match\<close>\<close>

text \<open>
  The HTTPS clone URL \<open>https://host/org/repo.git\<close> of a host and two names that can be
  spelled in a URL parses to the scheme \<open>Https\<close> and these three parts.
\<close>

lemma takeWhile_all: "list_all P a \<Longrightarrow> \<not> P c \<Longrightarrow> takeWhile P (a @ c # b) = a"
  by (induction a) auto

lemma dropWhile_all: "list_all P a \<Longrightarrow> \<not> P c \<Longrightarrow> dropWhile P (a @ c # b) = c # b"
  by (induction a) auto

lemma py_find_prefix: "py_find p (p @ xs) = Some 0"
proof (cases "p @ xs")
  case Nil
  then show ?thesis by simp
next
  case (Cons a l)
  have "take (length p) (p @ xs) = p"
    by simp
  then have "take (length p) (a # l) = p"
    unfolding Cons .
  then show ?thesis
    unfolding Cons by simp
qed

lemma py_rsplit1_str_suffix: "py_rsplit1_str sep (a @ sep) = [a, []]"
  using py_find_prefix [of "rev sep" "rev a"] by (simp add: py_rsplit1_str_def)

lemma py_strip_clean:
  "s \<noteq> [] \<Longrightarrow> hd s \<notin> set cs \<Longrightarrow> last s \<notin> set cs \<Longrightarrow> py_strip cs s = s"
proof -
  assume s: "s \<noteq> []" and h: "hd s \<notin> set cs" and l: "last s \<notin> set cs"
  from s h have front: "dropWhile (\<lambda>c. c \<in> set cs) s = s"
    by (cases s) simp_all
  from s l have rear: "dropWhile (\<lambda>c. c \<in> set cs) (rev s) = rev s"
    by (cases s rule: rev_cases) simp_all
  show ?thesis
    by (simp add: py_strip_def front rear)
qed

lemma py_strip_leading: "c \<in> set cs \<Longrightarrow> py_strip cs (c # s) = py_strip cs s"
  by (simp add: py_strip_def)

lemma py_split_all_no_sep: "c \<notin> set a \<Longrightarrow> py_split_all c a = [a]"
  by (induction a) auto

lemma py_split_all_at_first:
  "c \<notin> set a \<Longrightarrow> py_split_all c (a @ c # b) = a # py_split_all c b"
  by (induction a) auto

lemma url_name_chars:
  assumes "url_name s"
  shows "s \<noteq> []" and "CHR ''/'' \<notin> set s" and "CHR '':'' \<notin> set s" and "CHR ''?'' \<notin> set s"
    and "CHR ''#'' \<notin> set s" and "CHR '';'' \<notin> set s" and "\<forall>c \<in> set s. \<not> unsafe_url_byte c"
  using assms by (auto simp: url_name_def list_all_iff)

lemma url_host_chars:
  assumes "url_host h"
  shows "list_all (\<lambda>c. \<not> netloc_delim c) h" and "CHR ''['' \<notin> set h" and "CHR '']'' \<notin> set h"
    and "\<forall>c \<in> set h. \<not> unsafe_url_byte c"
  using assms by (auto simp: url_host_def list_all_iff netloc_delim_def)

lemma urlparse_https_url:
  assumes h: "url_host host" and o: "url_name org'" and r: "url_name repo"
  shows "urlparse (https_url host org' repo)
    = Inr \<lparr>pr_scheme = ''https'', pr_netloc = host,
           pr_path = CHR ''/'' # org' @ CHR ''/'' # repo @ ''.git''\<rparr>"
proof -
  let ?path = "CHR ''/'' # org' @ CHR ''/'' # repo @ ''.git''"
  let ?url = "https_url host org' repo"
  note oc = url_name_chars [OF o] and rc = url_name_chars [OF r] and hc = url_host_chars [OF h]
  have url: "?url = ''https://'' @ host @ ?path"
    by (simp add: https_url_def)
  have lead: "dropWhile c0_control_or_space ?url = ?url"
    by (simp add: https_url_def c0_control_or_space_def)
  have safe: "filter (\<lambda>c. \<not> unsafe_url_byte c) ?url = ?url"
    unfolding filter_id_conv url using oc(7) rc(7) hc(4)
    by (auto simp: unsafe_url_byte_def)
  have sch: "split_scheme ?url = (''https'', CHR ''/'' # CHR ''/'' # host @ ?path)"
    by (simp add: split_scheme_def https_url_def ascii_letters_def scheme_chars_def
        lower_char_def)
  have delim: "netloc_delim CHR ''/''"
    by (simp add: netloc_delim_def)
  have nl: "splitnetloc (CHR ''/'' # CHR ''/'' # host @ ?path) = (host, ?path)"
    using takeWhile_all [OF hc(1), of "CHR ''/''"] dropWhile_all [OF hc(1), of "CHR ''/''"] delim
    by (simp add: splitnetloc_def)
  let ?tail = "org' @ CHR ''/'' # repo @ ''.git''"
  have frag: "takeWhile (\<lambda>c. c \<noteq> CHR ''#'') ?tail = ?tail"
    unfolding takeWhile_eq_all_conv using oc(5) rc(5) by auto
  have query: "takeWhile (\<lambda>c. c \<noteq> CHR ''?'') ?tail = ?tail"
    unfolding takeWhile_eq_all_conv using oc(4) rc(4) by auto
  show ?thesis
    by (simp add: urlparse_def lead safe sch nl frag query oc(6) rc(6) hc(2,3) Let_def)
qed

lemma ParseURLToRemoteParts_https:
  assumes h: "url_host host" and o: "url_name org'" and r: "url_name repo"
  shows "ParseURLToRemoteParts (https_url host org' repo) = Inr (RemoteParts Https host org' repo)"
proof -
  let ?stem = "CHR ''/'' # org' @ CHR ''/'' # repo"
  let ?url = "https_url host org' repo"
  note oc = url_name_chars [OF o] and rc = url_name_chars [OF r]
  have not_git: "\<not> startswith ?url ''git@''"
    by (simp add: https_url_def startswith_def)
  have http: "startswith ?url ''http''"
    by (simp add: https_url_def startswith_def)
  have suffix: "endswith ?url ''.git''"
    using endswith_append [of "''https://'' @ host @ ?stem" "''.git''"]
    by (simp add: https_url_def)
  have sch: "lookup_scheme ''https'' = Inr Https"
    by (simp add: lookup_scheme_def)
  have "py_rsplit1_str ''.git'' (?stem @ ''.git'') = [?stem, []]"
    by (rule py_rsplit1_str_suffix)
  then have stem: "py_index (py_rsplit1_str ''.git'' (CHR ''/'' # org' @ CHR ''/'' # repo @ ''.git'')) 0
      = Inr ?stem"
    by (simp add: py_index_def)
  have inner: "py_strip ''/'' (org' @ CHR ''/'' # repo) = org' @ CHR ''/'' # repo"
  proof (rule py_strip_clean)
    show "org' @ CHR ''/'' # repo \<noteq> []" by simp
    show "hd (org' @ CHR ''/'' # repo) \<notin> set ''/''"
      using oc(1,2) by (cases org') auto
    show "last (org' @ CHR ''/'' # repo) \<notin> set ''/''"
      using rc(1,2) by (cases repo rule: rev_cases) auto
  qed
  have strip: "py_strip ''/'' ?stem = org' @ CHR ''/'' # repo"
    using py_strip_leading [of "CHR ''/''" "''/''" "org' @ CHR ''/'' # repo"] inner by simp
  have "py_split_all CHR ''/'' (org' @ CHR ''/'' # repo) = [org', repo]"
    using py_split_all_at_first [OF oc(2)] py_split_all_no_sep [OF rc(2)] by simp
  then have segs: "unpack2 (py_split_all CHR ''/'' (org' @ CHR ''/'' # repo)) = Inr (org', repo)"
    by (simp add: unpack2_def)
  show ?thesis
    unfolding ParseURLToRemoteParts_def
    by (simp only: not_git http suffix if_True if_False simp_thms urlparse_https_url [OF h o r]
        bind_err_Inr ParseResult.simps sch stem strip segs case_prod_conv)
qed

lemma is_match_unfold:
  "is_match self url =
     (case ParseURLToRemoteParts url of
        Inl e \<Rightarrow> Inl e
      | Inr p \<Rightarrow> Inr (netloc p = netloc (parts self) \<and> org p = org (parts self)
                      \<and> name p = name (parts self)))"
  by (simp add: is_match_def bind_err_def)

text \<open>
  C5.  \<open>is_match\<close> parses the URL, passes a failure of the parser on, and otherwise
  returns true exactly when the parsed host, organisation and repository name equal
  those of the remote; the scheme is not compared.  In particular a remote matches the
  SSH shorthand and the HTTPS clone URL that spell its own host, organisation and name,
  whatever its own scheme is.
\<close>

theorem is_match_ignores_scheme:
  "is_match self url =
     (case ParseURLToRemoteParts url of
        Inl e \<Rightarrow> Inl e
      | Inr p \<Rightarrow> Inr (netloc p = netloc (parts self) \<and> org p = org (parts self)
                      \<and> name p = name (parts self)))
   \<and> (url_name (org (parts self)) \<and> url_name (name (parts self)) \<longrightarrow>
        is_match self (ssh_url (netloc (parts self)) (org (parts self)) (name (parts self)))
          = Inr True)
   \<and> (url_host (netloc (parts self)) \<and> url_name (org (parts self))
        \<and> url_name (name (parts self)) \<longrightarrow>
        is_match self (https_url (netloc (parts self)) (org (parts self)) (name (parts self)))
          = Inr True)"
proof (intro conjI impI)
  show "is_match self url =
     (case ParseURLToRemoteParts url of
        Inl e \<Rightarrow> Inl e
      | Inr p \<Rightarrow> Inr (netloc p = netloc (parts self) \<and> org p = org (parts self)
                      \<and> name p = name (parts self)))"
    by (rule is_match_unfold)
next
  assume "url_name (org (parts self)) \<and> url_name (name (parts self))"
  then have o: "url_name (org (parts self))" and r: "url_name (name (parts self))"
    by simp_all
  have "ParseURLToRemoteParts (ssh_url (netloc (parts self)) (org (parts self)) (name (parts self)))
      = Inr (RemoteParts Git (netloc (parts self)) (org (parts self)) (name (parts self)))"
    using url_name_chars(3) [OF o] url_name_chars(3) [OF r] url_name_chars(2) [OF o]
    by (rule ParseURLToRemoteParts_git_at)
  then show "is_match self (ssh_url (netloc (parts self)) (org (parts self)) (name (parts self)))
      = Inr True"
    by (simp add: is_match_unfold)
next
  assume "url_host (netloc (parts self)) \<and> url_name (org (parts self))
        \<and> url_name (name (parts self))"
  then have h: "url_host (netloc (parts self))" and o: "url_name (org (parts self))"
    and r: "url_name (name (parts self))"
    by simp_all
  from ParseURLToRemoteParts_https [OF h o r]
  show "is_match self (https_url (netloc (parts self)) (org (parts self)) (name (parts self)))
      = Inr True"
    by (simp add: is_match_unfold)
qed

theorem is_match_ignores_scheme_witness:
  "url_host ''github.com'' \<and> url_name ''org'' \<and> url_name ''repo''
   \<and> is_match origin_remote ''git@github.com:org/repo.git'' = Inr True
   \<and> is_match origin_remote ''https://github.com/org/repo.git'' = Inr True
   \<and> is_match origin_remote ''git@github.com:org/other.git'' = Inr False"
proof -
  have p: "parts origin_remote = RemoteParts Https ''github.com'' ''org'' ''repo''"
    by (simp add: origin_remote_def)
  have h: "url_host (netloc (parts origin_remote))"
    and o: "url_name (org (parts origin_remote))"
    and r: "url_name (name (parts origin_remote))"
    by (simp_all add: p url_host_def url_name_def unsafe_url_byte_def)
  have other: "ParseURLToRemoteParts ''git@github.com:org/other.git''
      = Inr (RemoteParts Git ''github.com'' ''org'' ''other'')"
    using ParseURLToRemoteParts_git_at [of "''org''" "''other''" "''github.com''"]
    by (simp add: ssh_url_def)
  note inst = is_match_ignores_scheme [of origin_remote "''git@github.com:org/other.git''"]
  from inst [THEN conjunct1] have one: "is_match origin_remote ''git@github.com:org/other.git''
      = Inr False"
    by (simp add: other p)
  from inst [THEN conjunct2, THEN conjunct1, THEN mp, OF conjI, OF o r]
  have two: "is_match origin_remote ''git@github.com:org/repo.git'' = Inr True"
    by (simp add: p ssh_url_def)
  from inst [THEN conjunct2, THEN conjunct2, THEN mp, OF conjI, OF h conjI, OF o r]
  have three: "is_match origin_remote ''https://github.com/org/repo.git'' = Inr True"
    by (simp add: p https_url_def)
  from h o r one two three show ?thesis
    by (simp add: p)
qed

section \<open>The repository locator: \<open>select_repo_type\<close>\<close>

text \<open>
  C7.  With temporary names that are absolute paths, as \<open>tempfile\<close> produces them:
  an existing path that is a git working tree comes back unchanged with the type
  \<open>Local\<close> and no temporary name is allocated; an existing path that is not a repository
  fails with \<open>InvalidRepoPath\<close>; a path that does not exist yields the next temporary
  name, different from the input, with the type \<open>GithubGIT\<close> when it starts with
  \<open>git@github.com\<close> and \<open>GithubHTTPS\<close> when it starts with \<open>https://github.com\<close>; every
  other path fails with \<open>InvalidRepoPath\<close>.
\<close>

theorem select_repo_type_cases:
  assumes abs: "startswith (tmp_names os (tmp_count os)) ''/''"
  shows
  "(path_exists os p \<and> is_git_repo os p \<longrightarrow> select_repo_type os p = Inr ((p, Local), os))
   \<and> (path_exists os p \<and> \<not> is_git_repo os p \<longrightarrow>
        (\<exists>msg. select_repo_type os p = Inl (InvalidRepoPath msg)))
   \<and> (\<not> path_exists os p \<and> startswith p ''git@github.com'' \<longrightarrow>
        select_repo_type os p
          = Inr ((tmp_names os (tmp_count os), GithubGIT), os\<lparr>tmp_count := Suc (tmp_count os)\<rparr>)
        \<and> tmp_names os (tmp_count os) \<noteq> p)
   \<and> (\<not> path_exists os p \<and> startswith p ''https://github.com'' \<longrightarrow>
        select_repo_type os p
          = Inr ((tmp_names os (tmp_count os), GithubHTTPS), os\<lparr>tmp_count := Suc (tmp_count os)\<rparr>)
        \<and> tmp_names os (tmp_count os) \<noteq> p)
   \<and> (\<not> path_exists os p \<and> \<not> startswith p ''git@github.com''
        \<and> \<not> startswith p ''https://github.com'' \<longrightarrow>
        (\<exists>msg. select_repo_type os p = Inl (InvalidRepoPath msg)))"
proof -
  have git: "tmp_names os (tmp_count os) \<noteq> p" if "startswith p ''git@github.com''"
    using startswith_differ [OF abs that] by simp
  have https: "tmp_names os (tmp_count os) \<noteq> p" if "startswith p ''https://github.com''"
    using startswith_differ [OF abs that] by simp
  have excl: "\<not> startswith p ''git@github.com''" if "startswith p ''https://github.com''"
    using startswith_differ [OF that, of p] by auto
  show ?thesis
    using git https excl
    by (auto simp: select_repo_type_def NamedTemporaryFile_name_def)
qed


theorem select_repo_type_cases_witness:
  "startswith (tmp_names example_os (tmp_count example_os)) ''/''
   \<and> select_repo_type example_os ''/work/repo'' = Inr ((''/work/repo'', Local), example_os)
   \<and> select_repo_type example_os ''/work/notes''
       = Inl (InvalidRepoPath ''RepoPath[/work/notes] is not a Repository'')
   \<and> select_repo_type example_os ''git@github.com:org/repo.git''
       = Inr ((''/tmp/tmp0'', GithubGIT), example_os\<lparr>tmp_count := 1\<rparr>)
   \<and> select_repo_type example_os ''https://github.com/org/repo''
       = Inr ((''/tmp/tmp0'', GithubHTTPS), example_os\<lparr>tmp_count := 1\<rparr>)
   \<and> select_repo_type example_os ''/work/missing''
       = Inl (InvalidRepoPath ''RepoPath[/work/missing] does not exist'')"
proof -
  have abs: "startswith (tmp_names example_os (tmp_count example_os)) ''/''"
    by (simp add: example_os_def startswith_def)
  show ?thesis
    using abs
      select_repo_type_cases [OF abs, of "''/work/repo''"]
      select_repo_type_cases [OF abs, of "''/work/notes''"]
      select_repo_type_cases [OF abs, of "''git@github.com:org/repo.git''"]
      select_repo_type_cases [OF abs, of "''https://github.com/org/repo''"]
      select_repo_type_cases [OF abs, of "''/work/missing''"]
    by (simp add: example_os_def startswith_def select_repo_type_def
        NamedTemporaryFile_name_def)
qed

section \<open>The repository session\<close>

text \<open>
  C8.  For a session of type \<open>Local\<close>, scope entry and scope release make no call on
  the git collaborator and leave the session as it is, whatever \<open>altered_files\<close> holds
  and whatever the collaborator would do.
\<close>

theorem local_session_no_git:
  "repo_type self = Local \<Longrightarrow>
   Repo_enter env self t = Inr (self, t) \<and> Repo_exit R B env self t = Inr (self, t)"
  by (simp add: Repo_enter_def Repo_exit_def sync_repo_locally_def sync_repo_remote_def
      bind_err_def)

theorem local_session_no_git_witness:
  "repo_type (local_session [''notebooks/foo.ipynb'']) = Local
   \<and> Repo_enter broken_git (local_session [''notebooks/foo.ipynb'']) []
       = Inr (local_session [''notebooks/foo.ipynb''], [])
   \<and> Repo_exit ''origin'' ''main'' broken_git (local_session [''notebooks/foo.ipynb'']) []
       = Inr (local_session [''notebooks/foo.ipynb''], [])"
  using local_session_no_git [of "local_session [''notebooks/foo.ipynb'']" broken_git "[]"
      "''origin''" "''main''"]
  by (simp add: local_session_def)

lemma Repo_init_fields:
  assumes "Repo_init os path = Inr (self, os')"
  shows "repo_url self = (if repo_type self = Local then None else Some path)"
    and "altered_files self = []"
  using assms
  by (auto simp: Repo_init_def bind_err_def split: sum.splits prod.splits)

lemma session_step_keeps:
  "session_step R B env op (self, t) = Inr (self', t') \<Longrightarrow>
     repo_url self' = repo_url self \<and> repo_type self' = repo_type self"
  by (cases op)
     (auto simp: Repo_enter_def Repo_exit_def append_altered_def install_def uninstall_def
        bind_err_def split: sum.splits)

lemma run_session_keeps:
  "run_session R B env ops (self, t) = Inr (self', t') \<Longrightarrow>
     repo_url self' = repo_url self \<and> repo_type self' = repo_type self"
proof (induction ops arbitrary: self t)
  case Nil
  then show ?case by simp
next
  case (Cons op ops)
  then obtain mid t1 where
    step: "session_step R B env op (self, t) = Inr (mid, t1)"
    and rest: "run_session R B env ops (mid, t1) = Inr (self', t')"
    by (auto simp: bind_err_def split: sum.splits)
  from Cons.IH [OF rest] session_step_keeps [OF step] show ?case
    by simp
qed

text \<open>
  C9.  A constructed session has \<open>repo_url\<close> equal to the input string when its type is
  not \<open>Local\<close> and \<open>None\<close> when it is, so the URL is set exactly for the non-local
  types, and \<open>altered_files\<close> is empty.  Entering, appending altered files and releasing
  change neither \<open>repo_url\<close> nor \<open>repo_type\<close>, so the invariant holds after any run.
\<close>

theorem session_url_invariant:
  assumes "Repo_init os path = Inr (self, os')"
    and "run_session R B env ops (self, t) = Inr (self', t')"
  shows "repo_url self = (if repo_type self = Local then None else Some path)
    \<and> altered_files self = []
    \<and> ((repo_url self = None) = (repo_type self = Local))
    \<and> repo_url self' = repo_url self \<and> repo_type self' = repo_type self
    \<and> ((repo_url self' = None) = (repo_type self' = Local))"
  using Repo_init_fields [OF assms(1)] run_session_keeps [OF assms(2)]
  by simp

theorem session_url_invariant_witness:
  "Repo_init example_os ''git@github.com:org/repo.git''
     = Inr (ssh_session [], example_os\<lparr>tmp_count := 1\<rparr>)
   \<and> run_session ''origin'' ''main'' quiet_git example_scope (ssh_session [], [])
     = Inr (ssh_session [''notebooks/foo.ipynb''],
         [Clone ''git@github.com:org/repo.git'' ''/tmp/tmp0'', Open ''/tmp/tmp0'',
          Add ''notebooks/foo.ipynb'', Diff ''origin/master'', Commit commit_message,
          Remote ''origin'', Push])
   \<and> repo_url (ssh_session []) = Some ''git@github.com:org/repo.git''
   \<and> altered_files (ssh_session []) = []
   \<and> repo_url (ssh_session [''notebooks/foo.ipynb'']) = repo_url (ssh_session [])
   \<and> repo_type (ssh_session [''notebooks/foo.ipynb'']) = repo_type (ssh_session [])"
proof -
  have init: "Repo_init example_os ''git@github.com:org/repo.git''
     = Inr (ssh_session [], example_os\<lparr>tmp_count := 1\<rparr>)"
    by (simp add: Repo_init_def select_repo_type_def example_os_def startswith_def
        NamedTemporaryFile_name_def bind_err_def ssh_session_def)
  have run: "run_session ''origin'' ''main'' quiet_git example_scope (ssh_session [], [])
     = Inr (ssh_session [''notebooks/foo.ipynb''],
         [Clone ''git@github.com:org/repo.git'' ''/tmp/tmp0'', Open ''/tmp/tmp0'',
          Add ''notebooks/foo.ipynb'', Diff ''origin/master'', Commit commit_message,
          Remote ''origin'', Push])"
    by (simp add: example_scope_def Repo_enter_def Repo_exit_def sync_repo_locally_def
        sync_repo_remote_def clone_from_def git_call_def git_diff_len_def commit_and_push_def
        append_altered_def quiet_git_def ssh_session_def bind_err_def)
  from session_url_invariant [OF init run] init run show ?thesis
    by (simp add: ssh_session_def)
qed

section \<open>Release of a remote session\<close>

text \<open>With a collaborator whose calls all succeed, each call is recorded in turn.\<close>

lemma git_call_ok: "\<not> git_fails env t op \<Longrightarrow> git_call env op t = Inr (t @ [op])"
  by (simp add: git_call_def)

lemma add_all_ok:
  "(\<And>t op. \<not> git_fails env t op) \<Longrightarrow> add_all env files t = Inr (t @ map Add files)"
  by (induction files arbitrary: t) (simp_all add: git_call_def bind_err_def)

lemma commit_and_push_ok:
  "(\<And>t op. \<not> git_fails env t op) \<Longrightarrow>
     commit_and_push env t = Inr (t @ [Commit commit_message, Remote ''origin'', Push])"
  by (simp add: commit_and_push_def git_call_def bind_err_def)

lemma sync_repo_remote_https:
  assumes ok: "\<And>t op. \<not> git_fails env t op" and ty: "repo_type self = GithubHTTPS"
  shows "sync_repo_remote R B env self t =
     Inr (t @ Open (repo_path self) # map Add (altered_files self) @ Diff (R @ ''/'' @ B) #
       (if 0 < diff_len env (t @ Open (repo_path self) # map Add (altered_files self)) (R @ ''/'' @ B)
        then [Commit commit_message, Remote ''origin'', Push] else []))"
  using ok
  by (simp add: sync_repo_remote_def ty git_call_def add_all_ok commit_and_push_ok
      git_diff_len_def bind_err_def)

lemma sync_repo_remote_ssh:
  assumes ok: "\<And>t op. \<not> git_fails env t op" and ty: "repo_type self = GithubGIT"
  shows "sync_repo_remote R B env self t =
     Inr (t @ Open (repo_path self) # map Add (altered_files self) @ Diff ''origin/master'' #
       (if 0 < diff_len env (t @ Open (repo_path self) # map Add (altered_files self)) ''origin/master''
             \<or> altered_files self \<noteq> []
        then [Commit commit_message, Remote ''origin'', Push] else []))"
  using ok
  by (cases "altered_files self = []")
     (simp_all add: sync_repo_remote_def ty git_call_def add_all_ok commit_and_push_ok
        git_diff_len_def bind_err_def)

text \<open>
  C1.  A \<open>GithubHTTPS\<close> session whose \<open>altered_files\<close> holds one path is released on
  a repository whose index does not differ from \<open>origin/main\<close>: the path is staged and
  the difference is checked, but no commit and no push follow, although \<open>altered_files\<close>
  is not empty.  The \<open>GithubHTTPS\<close> branch tests the difference alone; the \<open>GithubGIT\<close>
  branch also tests \<open>altered_files\<close>.
\<close>

theorem release_without_diff_skips_commit:
  "repo_type (https_session [''notebooks/foo.ipynb'']) = GithubHTTPS
   \<and> altered_files (https_session [''notebooks/foo.ipynb'']) = [''notebooks/foo.ipynb'']
   \<and> sync_repo_remote ''origin'' ''main'' quiet_git (https_session [''notebooks/foo.ipynb'']) []
       = Inr [Open ''/tmp/tmp0'', Add ''notebooks/foo.ipynb'', Diff ''origin/main'']"
  by (simp add: sync_repo_remote_def https_session_def quiet_git_def git_call_def
      git_diff_len_def bind_err_def)

text \<open>
  What release does when every call on the collaborator succeeds: it opens the
  repository, stages every path of \<open>altered_files\<close> in order and makes one difference
  check.  The \<open>GithubHTTPS\<close> branch then commits once and pushes once exactly when the
  check finds a difference; the \<open>GithubGIT\<close> branch does so exactly when its check finds
  a difference or \<open>altered_files\<close> is not empty.
\<close>

lemma release_commit_condition:
  assumes ok: "\<And>t op. \<not> git_fails env t op"
  shows
  "(repo_type self = GithubHTTPS \<longrightarrow>
      sync_repo_remote R B env self t =
        Inr (t @ Open (repo_path self) # map Add (altered_files self) @ Diff (R @ ''/'' @ B) #
          (if 0 < diff_len env (t @ Open (repo_path self) # map Add (altered_files self))
                    (R @ ''/'' @ B)
           then [Commit commit_message, Remote ''origin'', Push] else [])))
   \<and> (repo_type self = GithubGIT \<longrightarrow>
      (\<exists>ref. sync_repo_remote R B env self t =
        Inr (t @ Open (repo_path self) # map Add (altered_files self) @ Diff ref #
          (if 0 < diff_len env (t @ Open (repo_path self) # map Add (altered_files self)) ref
                \<or> altered_files self \<noteq> []
           then [Commit commit_message, Remote ''origin'', Push] else []))))"
proof (intro conjI impI)
  assume ty: "repo_type self = GithubHTTPS"
  show "sync_repo_remote R B env self t =
        Inr (t @ Open (repo_path self) # map Add (altered_files self) @ Diff (R @ ''/'' @ B) #
          (if 0 < diff_len env (t @ Open (repo_path self) # map Add (altered_files self))
                    (R @ ''/'' @ B)
           then [Commit commit_message, Remote ''origin'', Push] else []))"
    by (fact sync_repo_remote_https [OF ok ty])
next
  assume ty: "repo_type self = GithubGIT"
  show "\<exists>ref. sync_repo_remote R B env self t =
        Inr (t @ Open (repo_path self) # map Add (altered_files self) @ Diff ref #
          (if 0 < diff_len env (t @ Open (repo_path self) # map Add (altered_files self)) ref
                \<or> altered_files self \<noteq> []
           then [Commit commit_message, Remote ''origin'', Push] else []))"
    by (rule exI [where x = "''origin/master''"], rule sync_repo_remote_ssh [OF ok ty])
qed

lemma release_commit_condition_example:
  "sync_repo_remote ''origin'' ''main'' dirty_git (https_session [''notebooks/foo.ipynb'']) []
     = Inr [Open ''/tmp/tmp0'', Add ''notebooks/foo.ipynb'', Diff ''origin/main'',
            Commit commit_message, Remote ''origin'', Push]
   \<and> sync_repo_remote ''origin'' ''main'' quiet_git (https_session []) []
     = Inr [Open ''/tmp/tmp0'', Diff ''origin/main'']
   \<and> (\<exists>ref. sync_repo_remote ''origin'' ''main'' quiet_git (ssh_session [''notebooks/foo.ipynb'']) []
     = Inr [Open ''/tmp/tmp0'', Add ''notebooks/foo.ipynb'', Diff ref,
            Commit commit_message, Remote ''origin'', Push])"
proof -
  have dirty: "\<And>t op. \<not> git_fails dirty_git t op"
    and quiet: "\<And>t op. \<not> git_fails quiet_git t op"
    by (simp_all add: dirty_git_def quiet_git_def)
  have d: "diff_len dirty_git t ref = 1" and q: "diff_len quiet_git t ref = 0" for t ref
    by (simp_all add: dirty_git_def quiet_git_def)
  have ty: "repo_type (https_session files) = GithubHTTPS"
    and ty': "repo_type (ssh_session files) = GithubGIT" for files
    by (simp_all add: https_session_def ssh_session_def)
  have fields: "repo_path (https_session files) = ''/tmp/tmp0''"
    "altered_files (https_session files) = files"
    "repo_path (ssh_session files) = ''/tmp/tmp0''"
    "altered_files (ssh_session files) = files" for files
    by (simp_all add: https_session_def ssh_session_def)
  note a = release_commit_condition [OF dirty,
      where self = "https_session [''notebooks/foo.ipynb'']" and R = "''origin''"
        and B = "''main''" and t = "[]"]
  note b = release_commit_condition [OF quiet,
      where self = "https_session []" and R = "''origin''" and B = "''main''" and t = "[]"]
  note c = release_commit_condition [OF quiet,
      where self = "ssh_session [''notebooks/foo.ipynb'']" and R = "''origin''"
        and B = "''main''" and t = "[]"]
  have one: "sync_repo_remote ''origin'' ''main'' dirty_git
       (https_session [''notebooks/foo.ipynb'']) []
     = Inr [Open ''/tmp/tmp0'', Add ''notebooks/foo.ipynb'', Diff ''origin/main'',
            Commit commit_message, Remote ''origin'', Push]"
    using a [THEN conjunct1, THEN mp, OF ty] by (simp add: fields d)
  have two: "sync_repo_remote ''origin'' ''main'' quiet_git (https_session []) []
     = Inr [Open ''/tmp/tmp0'', Diff ''origin/main'']"
    using b [THEN conjunct1, THEN mp, OF ty] by (simp add: fields q)
  from c [THEN conjunct2, THEN mp, OF ty'] obtain ref where
    "sync_repo_remote ''origin'' ''main'' quiet_git (ssh_session [''notebooks/foo.ipynb'']) []
     = Inr ([] @ Open (repo_path (ssh_session [''notebooks/foo.ipynb'']))
         # map Add (altered_files (ssh_session [''notebooks/foo.ipynb''])) @ Diff ref #
          (if 0 < diff_len quiet_git ([] @ Open (repo_path (ssh_session [''notebooks/foo.ipynb'']))
                 # map Add (altered_files (ssh_session [''notebooks/foo.ipynb'']))) ref
                \<or> altered_files (ssh_session [''notebooks/foo.ipynb'']) \<noteq> []
           then [Commit commit_message, Remote ''origin'', Push] else []))"
    by blast
  then have r: "sync_repo_remote ''origin'' ''main'' quiet_git
       (ssh_session [''notebooks/foo.ipynb'']) []
     = Inr [Open ''/tmp/tmp0'', Add ''notebooks/foo.ipynb'', Diff ref,
            Commit commit_message, Remote ''origin'', Push]"
    by (simp add: fields q)
  have three: "\<exists>ref. sync_repo_remote ''origin'' ''main'' quiet_git
       (ssh_session [''notebooks/foo.ipynb'']) []
     = Inr [Open ''/tmp/tmp0'', Add ''notebooks/foo.ipynb'', Diff ref,
            Commit commit_message, Remote ''origin'', Push]"
    by (rule exI [where x = ref], rule r)
  from one two three show ?thesis
    by (intro conjI)
qed

text \<open>
  C4.  The \<open>GithubGIT\<close> branch does not take its reference from \<open>DEFAULT_REMOTE\<close> and
  \<open>DEFAULT_BRANCH\<close>: with the defaults \<open>origin\<close> and \<open>main\<close> its difference check is
  made against the literal \<open>origin/master\<close>, while the \<open>GithubHTTPS\<close> branch checks
  against \<open>origin/main\<close>.
\<close>

theorem ssh_release_checks_origin_master:
  "sync_repo_remote ''origin'' ''main'' quiet_git (ssh_session []) []
     = Inr [Open ''/tmp/tmp0'', Diff ''origin/master'']
   \<and> sync_repo_remote ''origin'' ''main'' quiet_git (https_session []) []
     = Inr [Open ''/tmp/tmp0'', Diff ''origin/main'']"
  by (simp add: sync_repo_remote_def https_session_def ssh_session_def quiet_git_def git_call_def
      git_diff_len_def bind_err_def)

end
